theory Spec2Isabelle
  imports Main
begin

section \<open>Content type gating and course duration limits\<close>

text \<open>
  A shallow embedding of \<^verbatim>\<open>openedx/features/content_type_gating/partitions.py\<close> and
  \<^verbatim>\<open>openedx/features/course_duration_limits/models.py\<close>.

  Both modules are Python 2 code that asks other parts of the platform for data: the
  waffle flags, the course mode store, the enrollment store, the masquerade helpers, the
  commerce service, the scheme registry, the stacked configuration and the clock. Each of
  these collaborators is a field of an environment record, so that every function below is
  a function of its arguments and of the answers of the collaborators. A raised exception
  is the \<open>Inl\<close> of a sum, Python's \<^verbatim>\<open>None\<close> is the \<open>None\<close> of an option, and what a
  function does besides returning (the collaborators it asks, the log records it emits) is
  returned as a list of events, in the order of the source.
\<close>

subsection \<open>Values\<close>

type_synonym course_key = string

record user =
  username :: string

record group =
  group_id :: int
  group_name :: string

datatype scheme_ref = ContentTypeGatingPartitionScheme | RegisteredScheme string

record user_partition =
  partition_id :: int
  partition_name :: string
  partition_description :: string
  partition_groups :: "group list"
  partition_scheme :: scheme_ref
  partition_parameters :: "(string \<times> string) list option"
  partition_active :: bool

record course =
  course_id :: course_key
  user_partitions :: "user_partition list"


text \<open>
  A course mode, as the tuples of the course mode store carry it. The type of
  \<^verbatim>\<open>min_price\<close> is declared outside these sources; it is the type parameter \<open>'p\<close>.
\<close>

record 'p mode =
  slug :: string
  min_price :: 'p
  sku :: "string option"

record course_masquerade =
  masquerade_group_id :: "int option"
  masquerade_user_name :: "string option"

datatype level = WARNING | ERROR

datatype collaborator =
    GetCourseMasquerade
  | IsMasqueradingAsSpecificStudent
  | GetMasqueradingUserGroup
  | ContentTypeGatingFlag
  | ModesForCourse
  | HasVerifiedMode
  | EnrollmentModeForUser
  | ModeForCourse

datatype event = Asked collaborator | Logged level string

datatype error =
    ValueError string
  | TypeError
  | AttributeError
  | ValidationError string
  | UnicodeEncodeError


text \<open>
  A date is its proleptic Gregorian ordinal (\<^verbatim>\<open>date.toordinal()\<close>), so that the order of
  dates is the order of the integers. A \<^verbatim>\<open>datetime\<close> is a date and the microseconds since
  midnight; \<^verbatim>\<open>.date()\<close> is \<open>date_part\<close>.
\<close>

type_synonym date = int

record datetime =
  date_part :: date
  time_part :: nat

record enrollment =
  enrollment_course_id :: course_key
  created :: datetime

text \<open>
  An instance of \<^verbatim>\<open>CourseDurationLimitConfig\<close> with its two stackable fields, as
  \<^verbatim>\<open>current\<close> resolves them: \<^verbatim>\<open>enabled\<close> is true, false or unset (\<^verbatim>\<open>None\<close>),
  \<^verbatim>\<open>enabled_as_of\<close> is a date or \<^verbatim>\<open>None\<close>.
\<close>

record config =
  enabled :: "bool option"
  enabled_as_of :: "date option"

subsection \<open>The collaborators\<close>

record 'p gating_env =
  content_type_gating_flag :: bool
  content_type_gating_studio_ui_flag :: bool
  get_scheme :: "string \<Rightarrow> scheme_ref option"
  registered_create_user_partition ::
    "string \<Rightarrow> int \<Rightarrow> string \<Rightarrow> string \<Rightarrow> group list option
      \<Rightarrow> (string \<times> string) list option \<Rightarrow> bool \<Rightarrow> user_partition"
  get_course_masquerade :: "user \<Rightarrow> course_key \<Rightarrow> course_masquerade option"
  is_masquerading_as_specific_student :: "user \<Rightarrow> course_key \<Rightarrow> bool"
  get_masquerading_user_group :: "course_key \<Rightarrow> user \<Rightarrow> user_partition \<Rightarrow> group option"
  modes_for_course :: "course_key \<Rightarrow> bool \<Rightarrow> bool \<Rightarrow> 'p mode list"
  modes_for_course_dict :: "course_key \<Rightarrow> (string \<rightharpoonup> 'p mode)"
  has_verified_mode :: "(string \<rightharpoonup> 'p mode) \<Rightarrow> bool"
  mode_for_course :: "course_key \<Rightarrow> string \<Rightarrow> 'p mode list \<Rightarrow> 'p mode option"
  enrollment_mode_for_user :: "user \<Rightarrow> course_key \<Rightarrow> string option \<times> bool"
  ecommerce_is_enabled :: "user \<Rightarrow> bool"
  get_checkout_page_url :: "string \<Rightarrow> string option"
  is_request_from_mobile_app :: bool
  str_price :: "'p \<Rightarrow> string"
  get_enrollment :: "user \<Rightarrow> course_key \<Rightarrow> enrollment option"
  current :: "course_key \<Rightarrow> config"
  utcnow :: datetime

subsection \<open>Constants\<close>

definition CONTENT_GATING_PARTITION_ID :: int where
  "CONTENT_GATING_PARTITION_ID = 51"

definition CONTENT_TYPE_GATE_GROUP_IDS :: "string \<rightharpoonup> int" where
  "CONTENT_TYPE_GATE_GROUP_IDS = [''limited_access'' \<mapsto> 1, ''full_access'' \<mapsto> 2]"

definition LIMITED_ACCESS :: group where
  "LIMITED_ACCESS = \<lparr>group_id = 1, group_name = ''Limited-access Users''\<rparr>"

definition FULL_ACCESS :: group where
  "FULL_ACCESS = \<lparr>group_id = 2, group_name = ''Full-access Users''\<rparr>"

text \<open>
  Modelled from the spec: the slugs \<^verbatim>\<open>CourseMode.AUDIT\<close> and \<^verbatim>\<open>CourseMode.VERIFIED\<close> of
  the course mode model, which is outside these sources (the spec's EnrollmentMode values
  AUDIT and VERIFIED).
\<close>

definition AUDIT :: string where
  "AUDIT = ''audit''"

definition VERIFIED :: string where
  "VERIFIED = ''verified''"

subsection \<open>Python truth values\<close>

text \<open>A string or \<^verbatim>\<open>None\<close> in a condition: \<^verbatim>\<open>None\<close> and the empty string are false.\<close>

definition truthy :: "string option \<Rightarrow> bool" where
  "truthy s = (case s of None \<Rightarrow> False | Some t \<Rightarrow> t \<noteq> [])"

subsection \<open>partitions.py\<close>

fun get_partition_from_id :: "user_partition list \<Rightarrow> int \<Rightarrow> user_partition option" where
  "get_partition_from_id [] user_partition_id = None"
| "get_partition_from_id (p # ps) user_partition_id =
     (if partition_id p = user_partition_id then Some p
      else get_partition_from_id ps user_partition_id)"

text \<open>
  \<^verbatim>\<open>create_user_partition\<close> of the scheme: the arguments \<^verbatim>\<open>groups\<close> and \<^verbatim>\<open>active\<close> are
  accepted and not used.
\<close>

definition create_user_partition ::
  "int \<Rightarrow> string \<Rightarrow> string \<Rightarrow> group list option \<Rightarrow> (string \<times> string) list option \<Rightarrow> bool
    \<Rightarrow> user_partition" where
  "create_user_partition ident name description groups parameters active =
     \<lparr>partition_id = ident,
      partition_name = name,
      partition_description = description,
      partition_groups = [LIMITED_ACCESS, FULL_ACCESS],
      partition_scheme = ContentTypeGatingPartitionScheme,
      partition_parameters = parameters,
      partition_active = True\<rparr>"

text \<open>The method call \<^verbatim>\<open>content_gate_scheme.create_user_partition(...)\<close> on a registered scheme.\<close>

definition scheme_create_user_partition ::
  "'p gating_env \<Rightarrow> scheme_ref \<Rightarrow> int \<Rightarrow> string \<Rightarrow> string \<Rightarrow> group list option
    \<Rightarrow> (string \<times> string) list option \<Rightarrow> bool \<Rightarrow> user_partition" where
  "scheme_create_user_partition env s =
     (case s of
        ContentTypeGatingPartitionScheme \<Rightarrow> create_user_partition
      | RegisteredScheme n \<Rightarrow> registered_create_user_partition env n)"

text \<open>
  The names of partitions and the stringified course key (\<^verbatim>\<open>unicode(course.id)\<close>) are
  Python 2 \<^verbatim>\<open>unicode\<close> objects. A text is held here as its UTF-8 bytes, so it is ASCII
  exactly when each of its characters is below 128.
\<close>

definition is_ascii :: "string \<Rightarrow> bool" where
  "is_ascii s = list_all (\<lambda>c. (of_char c :: nat) < 128) s"

definition collision_warning_text :: "string \<Rightarrow> course_key \<Rightarrow> string" where
  "collision_warning_text name ck =
     ''Can't add 'content_type_gate' partition, as ID 51 is assigned to '' @ name
       @ '' in course '' @ ck @ ''.''"

text \<open>
  The argument of \<^verbatim>\<open>LOG.warning\<close> in the collision branch. \<^verbatim>\<open>partitions.py\<close> does not
  import \<^verbatim>\<open>unicode_literals\<close>, so the template is a byte string, and its \<^verbatim>\<open>format\<close>
  converts each \<^verbatim>\<open>unicode\<close> field with the ASCII codec: a partition name or a course key
  that is not ASCII raises \<^verbatim>\<open>UnicodeEncodeError\<close>. The argument is evaluated before
  \<^verbatim>\<open>LOG.warning\<close> is called.
\<close>

definition collision_warning :: "string \<Rightarrow> course_key \<Rightarrow> error + string" where
  "collision_warning name ck =
     (if is_ascii name \<and> is_ascii ck then Inr (collision_warning_text name ck)
      else Inl UnicodeEncodeError)"

definition create_content_gating_partition ::
  "'p gating_env \<Rightarrow> course \<Rightarrow> error + (user_partition option \<times> event list)" where
  "create_content_gating_partition env c =
     (if \<not> (content_type_gating_flag env \<or> content_type_gating_studio_ui_flag env) then
        Inr (None, [])
      else
        case get_scheme env ''content_type_gate'' of
          None \<Rightarrow>
            Inr (None, [Logged WARNING
              ''No 'content_type_gate' scheme registered, ContentTypeGatingPartitionScheme will not be created.''])
        | Some content_gate_scheme \<Rightarrow>
            (let used_ids = set (map partition_id (user_partitions c)) in
             if CONTENT_GATING_PARTITION_ID \<in> used_ids then
               (case get_partition_from_id (user_partitions c) CONTENT_GATING_PARTITION_ID of
                  None \<Rightarrow> Inl AttributeError
                | Some p \<Rightarrow>
                    (case collision_warning (partition_name p) (course_id c) of
                       Inl e \<Rightarrow> Inl e
                     | Inr message \<Rightarrow> Inr (None, [Logged WARNING message])))
             else
               Inr (Some (scheme_create_user_partition env content_gate_scheme
                            CONTENT_GATING_PARTITION_ID
                            ''Feature-based Enrollments''
                            ''Partition for segmenting users by access to gated content types''
                            None
                            (Some [(''course_id'', course_id c)])
                            True), [])))"





text \<open>
  The dict comprehension \<^verbatim>\<open>{mode.slug: mode for mode in modes}\<close>: a later mode with the
  same slug replaces an earlier one.
\<close>

definition modes_dict_of :: "'p mode list \<Rightarrow> (string \<rightharpoonup> 'p mode)" where
  "modes_dict_of modes = map_of (rev (map (\<lambda>m. (slug m, m)) modes))"

definition unknown_mode_error :: "string \<Rightarrow> string \<Rightarrow> course_key \<Rightarrow> string" where
  "unknown_mode_error uname mode_slug ck =
     ''User '' @ uname @ '' is in an unknown CourseMode '' @ [CHR 0x27] @ mode_slug
       @ [CHR 0x27] @ '' for course '' @ ck
       @ ''. Granting full access to content for this user''"

text \<open>
  \<^verbatim>\<open>get_group_for_user\<close>. The \<^verbatim>\<open>and\<close> of the first condition asks
  \<^verbatim>\<open>is_masquerading_as_specific_student\<close> only when \<^verbatim>\<open>get_course_masquerade\<close> gave a
  masquerade; the event list records this.
\<close>

definition get_group_for_user ::
  "'p gating_env \<Rightarrow> course_key \<Rightarrow> user \<Rightarrow> user_partition \<Rightarrow> group option \<times> event list" where
  "get_group_for_user env ck usr up =
     (let masquerade = get_course_masquerade env usr ck;
          e1 = [Asked GetCourseMasquerade]
                 @ (if masquerade \<noteq> None then [Asked IsMasqueradingAsSpecificStudent] else [])
      in
      if masquerade \<noteq> None \<and> \<not> is_masquerading_as_specific_student env usr ck then
        (get_masquerading_user_group env ck usr up, e1 @ [Asked GetMasqueradingUserGroup])
      else
        (let e2 = e1 @ [Asked ContentTypeGatingFlag] in
         if \<not> content_type_gating_flag env then (Some FULL_ACCESS, e2)
         else
           (let modes = modes_for_course env ck True False;
                modes_dict = modes_dict_of modes;
                e3 = e2 @ [Asked ModesForCourse, Asked HasVerifiedMode]
            in
            if \<not> has_verified_mode env modes_dict then (Some FULL_ACCESS, e3)
            else
              (let e4 = e3 @ [Asked EnrollmentModeForUser] in
               case enrollment_mode_for_user env usr ck of
                 (mode_slug, is_active) \<Rightarrow>
                   if truthy mode_slug \<and> is_active then
                     (case mode_slug of
                        None \<Rightarrow> (Some LIMITED_ACCESS, e4)
                      | Some s \<Rightarrow>
                          (let course_mode = mode_for_course env ck s modes;
                               e5 = e4 @ [Asked ModeForCourse]
                           in
                           if course_mode = None then
                             (Some FULL_ACCESS,
                              e5 @ [Logged ERROR (unknown_mode_error (username usr) s ck)])
                           else if s = AUDIT then (Some LIMITED_ACCESS, e5)
                           else (Some FULL_ACCESS, e5)))
                   else (Some LIMITED_ACCESS, e4)))))"

fun logged :: "event list \<Rightarrow> (level \<times> string) list" where
  "logged [] = []"
| "logged (Asked c # es) = logged es"
| "logged (Logged l m # es) = (l, m) # logged es"

fun asked :: "event list \<Rightarrow> collaborator list" where
  "asked [] = []"
| "asked (Asked c # es) = c # asked es"
| "asked (Logged l m # es) = asked es"

subsection \<open>models.py\<close>

text \<open>
  The value of a Python expression that is \<^verbatim>\<open>None\<close> or a boolean, and the cast
  \<^verbatim>\<open>bool(...)\<close> of it.
\<close>

datatype pyval = PyNone | PyBool bool

definition py_bool :: "pyval \<Rightarrow> bool" where
  "py_bool v = (case v of PyNone \<Rightarrow> False | PyBool b \<Rightarrow> b)"

text \<open>
  \<^verbatim>\<open>self.enabled_as_of <= target_date\<close>, where \<^verbatim>\<open>target_date\<close> is a
  \<^verbatim>\<open>datetime.date\<close>. An ordering comparison of a \<^verbatim>\<open>datetime.date\<close> with a value that is
  not a date raises \<^verbatim>\<open>TypeError\<close> (only \<^verbatim>\<open>==\<close> and \<^verbatim>\<open>!=\<close> are answered): for
  \<^verbatim>\<open>None <= target_date\<close> Python asks the date for the reflected comparison, and the date
  refuses it.
\<close>

definition date_le :: "date option \<Rightarrow> date \<Rightarrow> error + bool" where
  "date_le a target_date =
     (case a of None \<Rightarrow> Inl TypeError | Some d \<Rightarrow> Inr (d \<le> target_date))"

text \<open>
  \<^verbatim>\<open>self.enabled and self.enabled_as_of <= target_date\<close>: when \<^verbatim>\<open>enabled\<close> is
  \<^verbatim>\<open>None\<close> or false, the value is \<^verbatim>\<open>enabled\<close> itself and the comparison is not
  evaluated.
\<close>

definition enabled_and_as_of :: "config \<Rightarrow> date \<Rightarrow> error + pyval" where
  "enabled_and_as_of self target_date =
     (case enabled self of
        None \<Rightarrow> Inr PyNone
      | Some False \<Rightarrow> Inr (PyBool False)
      | Some True \<Rightarrow>
          (case date_le (enabled_as_of self) target_date of
             Inl e \<Rightarrow> Inl e
           | Inr b \<Rightarrow> Inr (PyBool b)))"

definition enabled_as_of_date :: "'p gating_env \<Rightarrow> config \<Rightarrow> date \<Rightarrow> error + bool" where
  "enabled_as_of_date env self target_date =
     (if content_type_gating_flag env then Inr True
      else
        case enabled_and_as_of self target_date of
          Inl e \<Rightarrow> Inl e
        | Inr v \<Rightarrow> Inr (py_bool v))"

definition clean :: "config \<Rightarrow> error + unit" where
  "clean self =
     (if enabled self = Some True \<and> enabled_as_of self = None then
        Inl (ValidationError ''enabled_as_of must be set when enabled is True'')
      else Inr ())"

definition enabled_for_course ::
  "'p gating_env \<Rightarrow> course_key \<Rightarrow> date option \<Rightarrow> error + bool" where
  "enabled_for_course env ck target_date =
     (if content_type_gating_flag env then Inr True
      else
        (let target_date' =
               (case target_date of None \<Rightarrow> date_part (utcnow env) | Some d \<Rightarrow> d);
             current_config = current env ck
         in enabled_as_of_date env current_config target_date'))"

text \<open>
  \<^verbatim>\<open>enabled_for_enrollment\<close>. After the three checks of the arguments either the enrollment
  is given (and neither user nor course key), or both user and course key are. The two
  branches that the checks exclude (\<^verbatim>\<open>enrollment.course_id\<close> of no enrollment, a lookup
  for no user) are written out as \<^verbatim>\<open>AttributeError\<close>; no call reaches them, see
  \<open>enabled_for_enrollment_no_attribute_error\<close> below.
\<close>

definition enabled_for_enrollment ::
  "'p gating_env \<Rightarrow> enrollment option \<Rightarrow> user option \<Rightarrow> course_key option \<Rightarrow> error + bool" where
  "enabled_for_enrollment env enr usr ck =
     (if content_type_gating_flag env then Inr True
      else if enr \<noteq> None \<and> (usr \<noteq> None \<or> ck \<noteq> None) then
        Inl (ValueError ''Specify enrollment or user/course_key, but not both'')
      else if enr = None \<and> (usr = None \<or> ck = None) then
        Inl (ValueError ''Both user and course_key must be specified if no enrollment is provided'')
      else if enr = None \<and> usr = None \<and> ck = None then
        Inl (ValueError ''At least one of enrollment or user and course_key must be specified'')
      else
        (case (case ck of
                 Some k \<Rightarrow> Inr k
               | None \<Rightarrow>
                   (case enr of
                      None \<Rightarrow> Inl AttributeError
                    | Some e \<Rightarrow> Inr (enrollment_course_id e))) of
           Inl err \<Rightarrow> Inl err
         | Inr ck' \<Rightarrow>
             (case (case enr of
                      Some e \<Rightarrow> Inr (Some e)
                    | None \<Rightarrow>
                        (case usr of
                           None \<Rightarrow> Inl AttributeError
                         | Some u \<Rightarrow> Inr (get_enrollment env u ck'))) of
                Inl err \<Rightarrow> Inl err
              | Inr None \<Rightarrow> enabled_for_course env ck' (Some (date_part (utcnow env)))
              | Inr (Some e) \<Rightarrow>
                  enabled_as_of_date env (current env (enrollment_course_id e))
                    (date_part (created e)))))"

subsection \<open>Sample data\<close>

text \<open>
  A concrete course, learner and set of collaborators, on which the functions above can be
  evaluated. The dates are the ordinals of 2020-01-01 (737425), 2021-01-01 (737791) and
  2021-01-10 (737800).
\<close>

text \<open>Python's \<^verbatim>\<open>str\<close> of an integer, for a price that is one.\<close>

fun str_nat :: "nat \<Rightarrow> string" where
  "str_nat n =
     (if n < 10 then [char_of (48 + n)]
      else str_nat (n div 10) @ [char_of (48 + n mod 10)])"

definition str_int :: "int \<Rightarrow> string" where
  "str_int i = (if i < 0 then CHR ''-'' # str_nat (nat (- i)) else str_nat (nat i))"

text \<open>
  Modelled from the spec: \<^verbatim>\<open>modeForCourse(courseKey, slug, modes)\<close> of the course mode
  store, which is outside these sources and gives a mode or none: here the first mode of
  \<^verbatim>\<open>modes\<close> with the slug. It is the \<open>mode_for_course\<close> of the sample collaborators only.
\<close>

definition first_mode_with_slug :: "course_key \<Rightarrow> string \<Rightarrow> 'p mode list \<Rightarrow> 'p mode option" where
  "first_mode_with_slug ck s modes = find (\<lambda>m. slug m = s) modes"

text \<open>
  Modelled from the spec: \<^verbatim>\<open>hasVerifiedMode(modes)\<close> of the course mode store, which is
  outside these sources and gives a boolean: here whether the dictionary has the verified
  slug. It is the \<open>has_verified_mode\<close> of the sample collaborators only.
\<close>

definition verified_in :: "(string \<rightharpoonup> 'p mode) \<Rightarrow> bool" where
  "verified_in d = (d VERIFIED \<noteq> None)"

definition learner :: user where
  "learner = \<lparr>username = ''alice''\<rparr>"

definition demo_course :: course_key where
  "demo_course = ''course-v1:edX+DemoX+Demo''"


definition audit_mode :: "int mode" where
  "audit_mode = \<lparr>slug = AUDIT, min_price = 0, sku = None\<rparr>"

definition verified_mode_100 :: "int mode" where
  "verified_mode_100 = \<lparr>slug = VERIFIED, min_price = 100, sku = Some ''SKU-VERIFIED''\<rparr>"

definition gating_partition :: user_partition where
  "gating_partition =
     create_user_partition CONTENT_GATING_PARTITION_ID ''Feature-based Enrollments''
       ''Partition for segmenting users by access to gated content types''
       None (Some [(''course_id'', demo_course)]) True"

definition demo_enrollment :: enrollment where
  "demo_enrollment =
     \<lparr>enrollment_course_id = demo_course, created = \<lparr>date_part = 737425, time_part = 0\<rparr>\<rparr>"

text \<open>
  The gating flag is on, nobody masquerades, the course has an audit and a verified mode
  (100), the learner has an active audit enrollment, the commerce service is off, and the
  duration limit is enabled as of 2021-01-01.
\<close>

definition demo_env :: "int gating_env" where
  "demo_env =
     \<lparr>content_type_gating_flag = True,
      content_type_gating_studio_ui_flag = False,
      get_scheme = (\<lambda>n. if n = ''content_type_gate'' then Some ContentTypeGatingPartitionScheme
                         else None),
      registered_create_user_partition = (\<lambda>n. create_user_partition),
      get_course_masquerade = (\<lambda>u k. None),
      is_masquerading_as_specific_student = (\<lambda>u k. False),
      get_masquerading_user_group = (\<lambda>k u p. None),
      modes_for_course = (\<lambda>k e s. [audit_mode, verified_mode_100]),
      modes_for_course_dict = (\<lambda>k. modes_dict_of [audit_mode, verified_mode_100]),
      has_verified_mode = verified_in,
      mode_for_course = first_mode_with_slug,
      enrollment_mode_for_user = (\<lambda>u k. (Some AUDIT, True)),
      ecommerce_is_enabled = (\<lambda>u. False),
      get_checkout_page_url = (\<lambda>s. None),
      is_request_from_mobile_app = False,
      str_price = str_int,
      get_enrollment = (\<lambda>u k. None),
      current = (\<lambda>k. \<lparr>enabled = Some True, enabled_as_of = Some 737791\<rparr>),
      utcnow = \<lparr>date_part = 737800, time_part = 0\<rparr>\<rparr>"

text \<open>The course has a verified mode and no audit mode; the learner's enrollment is audit.\<close>

definition verified_only_env :: "int gating_env" where
  "verified_only_env = demo_env\<lparr>modes_for_course := (\<lambda>k e s. [verified_mode_100])\<rparr>"

text \<open>The course has an audit mode only.\<close>

definition audit_only_env :: "int gating_env" where
  "audit_only_env = demo_env\<lparr>modes_for_course := (\<lambda>k e s. [audit_mode])\<rparr>"

text \<open>
  A member of the course staff previews the course as a member of the Limited-access
  group; the course has an audit mode only.
\<close>

definition group_masquerade_env :: "int gating_env" where
  "group_masquerade_env =
     demo_env\<lparr>get_course_masquerade :=
                (\<lambda>u k. Some \<lparr>masquerade_group_id = Some 1, masquerade_user_name = None\<rparr>),
              get_masquerading_user_group := (\<lambda>k u p. Some LIMITED_ACCESS),
              modes_for_course := (\<lambda>k e s. [audit_mode])\<rparr>"

definition flag_off_env :: "int gating_env" where
  "flag_off_env = demo_env\<lparr>content_type_gating_flag := False\<rparr>"

text \<open>A stored configuration that \<^verbatim>\<open>clean\<close> would reject.\<close>

definition unvalidated_config :: config where
  "unvalidated_config = \<lparr>enabled = Some True, enabled_as_of = None\<rparr>"

definition unvalidated_env :: "int gating_env" where
  "unvalidated_env = flag_off_env\<lparr>current := (\<lambda>k. unvalidated_config)\<rparr>"

text \<open>A course whose own partitions already use the ids 50 and 51.\<close>

definition colliding_course :: course where
  "colliding_course =
     \<lparr>course_id = demo_course,
      user_partitions =
        [\<lparr>partition_id = 50, partition_name = ''Enrollment Track'',
          partition_description = ''Partition for segmenting users by enrollment track'',
          partition_groups = [], partition_scheme = RegisteredScheme ''enrollment_track'',
          partition_parameters = None, partition_active = True\<rparr>,
         \<lparr>partition_id = 51, partition_name = ''Imported'',
          partition_description = ''A partition of an imported course'',
          partition_groups = [], partition_scheme = RegisteredScheme ''random'',
          partition_parameters = None, partition_active = True\<rparr>]\<rparr>"

text \<open>
  The same course, where the partition with id 51 is named \<^verbatim>\<open>Caf\<close> followed by
  e with an acute accent (U+00E9, the bytes C3 A9).
\<close>

definition accented_course :: course where
  "accented_course =
     \<lparr>course_id = demo_course,
      user_partitions =
        [\<lparr>partition_id = 50, partition_name = ''Enrollment Track'',
          partition_description = ''Partition for segmenting users by enrollment track'',
          partition_groups = [], partition_scheme = RegisteredScheme ''enrollment_track'',
          partition_parameters = None, partition_active = True\<rparr>,
         \<lparr>partition_id = 51, partition_name = ''Caf'' @ [CHR 0xC3, CHR 0xA9],
          partition_description = ''A partition of an imported course'',
          partition_groups = [], partition_scheme = RegisteredScheme ''random'',
          partition_parameters = None, partition_active = True\<rparr>]\<rparr>"

text \<open>
  The enrollment store answers with an active enrollment whose mode is the empty string.
\<close>

definition empty_slug_env :: "int gating_env" where
  "empty_slug_env = demo_env\<lparr>enrollment_mode_for_user := (\<lambda>u k. (Some [], True))\<rparr>"

section \<open>Properties\<close>

subsection \<open>Auxiliary facts\<close>


lemma get_partition_from_id_found:
  "i \<in> partition_id ` set ps \<Longrightarrow>
     \<exists>p. get_partition_from_id ps i = Some p \<and> p \<in> set ps \<and> partition_id p = i"
  by (induction ps) auto

lemma get_partition_from_id_Some:
  "get_partition_from_id ps i = Some p \<Longrightarrow> p \<in> set ps \<and> partition_id p = i"
  by (induction ps) (auto split: if_splits)

text \<open>
  The argument checks of \<^verbatim>\<open>enabled_for_enrollment\<close> leave no path on which an attribute
  of \<^verbatim>\<open>None\<close> is read.
\<close>

lemma enabled_for_enrollment_no_attribute_error:
  "enabled_for_enrollment env enr usr ck \<noteq> Inl AttributeError"
  by (cases enr; cases usr; cases ck)
     (auto simp: enabled_for_enrollment_def enabled_for_course_def enabled_as_of_date_def
        enabled_and_as_of_def date_le_def Let_def split: option.splits bool.splits)

text \<open>
  Rules 2 to 4 of \<^verbatim>\<open>get_group_for_user\<close> for a user with an active enrollment, when the
  masquerade rule does not apply, the flag is on and the course has a verified mode.
\<close>

lemma active_enrollment_group:
  assumes "get_course_masquerade env usr ck = None \<or> is_masquerading_as_specific_student env usr ck"
    and "content_type_gating_flag env"
    and "has_verified_mode env (modes_dict_of (modes_for_course env ck True False))"
    and "enrollment_mode_for_user env usr ck = (Some s, True)"
    and "s \<noteq> []"
  shows "fst (get_group_for_user env ck usr up) =
           (if mode_for_course env ck s (modes_for_course env ck True False) = None
            then Some FULL_ACCESS
            else if s = AUDIT then Some LIMITED_ACCESS else Some FULL_ACCESS)"
    and "logged (snd (get_group_for_user env ck usr up)) =
           (if mode_for_course env ck s (modes_for_course env ck True False) = None
            then [(ERROR, unknown_mode_error (username usr) s ck)] else [])"
  using assms by (auto simp: get_group_for_user_def Let_def truthy_def)

subsection \<open>Group assignment\<close>

text \<open>
  C1. A user with an active enrollment whose mode is audit, in a course that has a verified
  mode, with the gating flag enabled and no group masquerade in effect, is assigned
  \<open>LIMITED_ACCESS\<close>, and nothing is logged, provided the audit slug resolves to a mode of
  the course. The proviso is needed: the unknown-mode rule is checked before the audit
  rule, as the example after the theorem shows.
\<close>

theorem audit_enrollment_limited_access:
  assumes "get_course_masquerade env usr ck = None \<or> is_masquerading_as_specific_student env usr ck"
    and "content_type_gating_flag env"
    and "has_verified_mode env (modes_dict_of (modes_for_course env ck True False))"
    and "enrollment_mode_for_user env usr ck = (Some AUDIT, True)"
    and "mode_for_course env ck AUDIT (modes_for_course env ck True False) \<noteq> None"
  shows "fst (get_group_for_user env ck usr up) = Some LIMITED_ACCESS
         \<and> logged (snd (get_group_for_user env ck usr up)) = []"
proof -
  have "AUDIT \<noteq> []"
    by (simp add: AUDIT_def)
  from active_enrollment_group [OF assms(1-4) this] assms(5) show ?thesis
    by simp
qed

theorem audit_enrollment_limited_access_witness:
  "fst (get_group_for_user demo_env demo_course learner gating_partition) = Some LIMITED_ACCESS
   \<and> logged (snd (get_group_for_user demo_env demo_course learner gating_partition)) = []"
  by (rule audit_enrollment_limited_access)
     (simp_all add: demo_env_def modes_dict_of_def verified_in_def first_mode_with_slug_def
        verified_mode_100_def audit_mode_def AUDIT_def VERIFIED_def)

text \<open>
  An active audit enrollment in a course whose modes are the verified mode alone: the flag
  is on, nobody masquerades, the course has a verified mode, and the learner is assigned
  \<open>FULL_ACCESS\<close>.
\<close>

theorem audit_enrollment_unresolved_counterexample:
  "content_type_gating_flag verified_only_env
   \<and> get_course_masquerade verified_only_env learner demo_course = None
   \<and> has_verified_mode verified_only_env
        (modes_dict_of (modes_for_course verified_only_env demo_course True False))
   \<and> enrollment_mode_for_user verified_only_env learner demo_course = (Some AUDIT, True)
   \<and> fst (get_group_for_user verified_only_env demo_course learner gating_partition)
        = Some FULL_ACCESS
   \<and> FULL_ACCESS \<noteq> LIMITED_ACCESS"
  by (simp add: get_group_for_user_def verified_only_env_def demo_env_def Let_def truthy_def
      modes_dict_of_def verified_in_def first_mode_with_slug_def verified_mode_100_def
      AUDIT_def VERIFIED_def FULL_ACCESS_def LIMITED_ACCESS_def)

text \<open>
  C2. A user with an active enrollment whose mode is a non-empty slug that does not resolve
  to a mode of the course, with the gating flag enabled, a verified mode present and no
  group masquerade in effect, is assigned \<open>FULL_ACCESS\<close>, and exactly one record is logged,
  at error level, naming the user, the mode and the course. The slug has to be non-empty:
  \<^verbatim>\<open>if mode_slug and is_active\<close> takes an empty slug for no enrollment, as the example
  after the theorem shows.
\<close>

theorem unknown_mode_fails_open:
  assumes "get_course_masquerade env usr ck = None \<or> is_masquerading_as_specific_student env usr ck"
    and "content_type_gating_flag env"
    and "has_verified_mode env (modes_dict_of (modes_for_course env ck True False))"
    and "enrollment_mode_for_user env usr ck = (Some s, True)"
    and "s \<noteq> []"
    and "mode_for_course env ck s (modes_for_course env ck True False) = None"
  shows "fst (get_group_for_user env ck usr up) = Some FULL_ACCESS
         \<and> logged (snd (get_group_for_user env ck usr up))
             = [(ERROR, unknown_mode_error (username usr) s ck)]"
  using active_enrollment_group [OF assms(1-5)] assms(6) by simp

theorem unknown_mode_fails_open_witness:
  "fst (get_group_for_user verified_only_env demo_course learner gating_partition)
     = Some FULL_ACCESS
   \<and> logged (snd (get_group_for_user verified_only_env demo_course learner gating_partition))
       = [(ERROR, unknown_mode_error ''alice'' ''audit'' demo_course)]"
proof -
  have "fst (get_group_for_user verified_only_env demo_course learner gating_partition)
          = Some FULL_ACCESS
        \<and> logged (snd (get_group_for_user verified_only_env demo_course learner gating_partition))
            = [(ERROR, unknown_mode_error (username learner) AUDIT demo_course)]"
    by (rule unknown_mode_fails_open)
       (simp_all add: verified_only_env_def demo_env_def modes_dict_of_def verified_in_def
          first_mode_with_slug_def verified_mode_100_def AUDIT_def VERIFIED_def)
  then show ?thesis
    by (simp add: learner_def AUDIT_def)
qed

text \<open>
  An active enrollment whose mode is the empty string, which resolves to no mode of the
  course: the flag is on, nobody masquerades, the course has a verified mode, and the
  learner is assigned \<open>LIMITED_ACCESS\<close> with nothing logged.
\<close>

theorem empty_mode_slug_counterexample:
  "content_type_gating_flag empty_slug_env
   \<and> get_course_masquerade empty_slug_env learner demo_course = None
   \<and> has_verified_mode empty_slug_env
        (modes_dict_of (modes_for_course empty_slug_env demo_course True False))
   \<and> enrollment_mode_for_user empty_slug_env learner demo_course = (Some [], True)
   \<and> mode_for_course empty_slug_env demo_course []
        (modes_for_course empty_slug_env demo_course True False) = None
   \<and> fst (get_group_for_user empty_slug_env demo_course learner gating_partition)
        = Some LIMITED_ACCESS
   \<and> logged (snd (get_group_for_user empty_slug_env demo_course learner gating_partition)) = []
   \<and> LIMITED_ACCESS \<noteq> FULL_ACCESS"
  by (simp add: get_group_for_user_def empty_slug_env_def demo_env_def Let_def truthy_def
      modes_dict_of_def verified_in_def first_mode_with_slug_def verified_mode_100_def
      audit_mode_def AUDIT_def VERIFIED_def FULL_ACCESS_def LIMITED_ACCESS_def)

text \<open>
  C4. If the course has no verified mode, every user for whom no group masquerade is in
  effect is assigned \<open>FULL_ACCESS\<close>, whatever the enrollment: the enrollment store is not
  asked. When the caller previews the course as a member of a group, the masquerade rule
  comes first and gives that group, as the example after the theorem shows.
\<close>

theorem no_verified_mode_full_access:
  assumes "get_course_masquerade env usr ck = None \<or> is_masquerading_as_specific_student env usr ck"
    and "\<not> has_verified_mode env (modes_dict_of (modes_for_course env ck True False))"
  shows "fst (get_group_for_user env ck usr up) = Some FULL_ACCESS
         \<and> EnrollmentModeForUser \<notin> set (asked (snd (get_group_for_user env ck usr up)))"
  using assms by (auto simp: get_group_for_user_def Let_def)

theorem no_verified_mode_full_access_witness:
  "fst (get_group_for_user audit_only_env demo_course learner gating_partition)
     = Some FULL_ACCESS
   \<and> EnrollmentModeForUser
       \<notin> set (asked (snd (get_group_for_user audit_only_env demo_course learner gating_partition)))"
  by (rule no_verified_mode_full_access)
     (simp_all add: audit_only_env_def demo_env_def modes_dict_of_def verified_in_def
        audit_mode_def AUDIT_def VERIFIED_def)

text \<open>
  A course without a verified mode, previewed as a member of the Limited-access group:
  the result is \<open>LIMITED_ACCESS\<close>.
\<close>

theorem no_verified_mode_masquerade_counterexample:
  "\<not> has_verified_mode group_masquerade_env
        (modes_dict_of (modes_for_course group_masquerade_env demo_course True False))
   \<and> fst (get_group_for_user group_masquerade_env demo_course learner gating_partition)
        = Some LIMITED_ACCESS
   \<and> LIMITED_ACCESS \<noteq> FULL_ACCESS"
  by (simp add: get_group_for_user_def group_masquerade_env_def demo_env_def Let_def
      modes_dict_of_def verified_in_def audit_mode_def
      AUDIT_def VERIFIED_def FULL_ACCESS_def LIMITED_ACCESS_def)

text \<open>
  C5. For a user who masquerades in the course, and not as a specific student,
  \<^verbatim>\<open>get_group_for_user\<close> returns the group of the masquerade. Only the three masquerade
  helpers are asked, and the result is the same whatever the feature flag, the course
  modes and the enrollment store would answer.
\<close>

theorem group_masquerade_bypass:
  assumes "get_course_masquerade env usr ck \<noteq> None"
    and "\<not> is_masquerading_as_specific_student env usr ck"
  shows "get_group_for_user env ck usr up =
           (get_masquerading_user_group env ck usr up,
            [Asked GetCourseMasquerade, Asked IsMasqueradingAsSpecificStudent,
             Asked GetMasqueradingUserGroup])
         \<and> get_group_for_user
             (env\<lparr>content_type_gating_flag := flag, modes_for_course := modes,
                  has_verified_mode := verified, mode_for_course := resolve,
                  enrollment_mode_for_user := enrolled\<rparr>) ck usr up
           = get_group_for_user env ck usr up"
  using assms by (simp add: get_group_for_user_def Let_def)

theorem group_masquerade_bypass_witness:
  "get_group_for_user group_masquerade_env demo_course learner gating_partition =
     (Some LIMITED_ACCESS,
      [Asked GetCourseMasquerade, Asked IsMasqueradingAsSpecificStudent,
       Asked GetMasqueradingUserGroup])"
proof -
  have "get_group_for_user group_masquerade_env demo_course learner gating_partition =
          (get_masquerading_user_group group_masquerade_env demo_course learner gating_partition,
            [Asked GetCourseMasquerade, Asked IsMasqueradingAsSpecificStudent,
             Asked GetMasqueradingUserGroup])"
    by (rule group_masquerade_bypass [THEN conjunct1])
       (simp_all add: group_masquerade_env_def demo_env_def)
  then show ?thesis
    by (simp add: group_masquerade_env_def)
qed

subsection \<open>Partition creation\<close>

text \<open>
  A collision with an ASCII partition name and an ASCII course key: the function returns
  \<^verbatim>\<open>None\<close> and logs exactly one record, a warning that names the first partition of the
  course with the id 51.
\<close>

lemma reserved_id_collision_ascii:
  assumes "content_type_gating_flag env \<or> content_type_gating_studio_ui_flag env"
    and "get_scheme env ''content_type_gate'' = Some sch"
    and "get_partition_from_id (user_partitions c) 51 = Some p"
    and "is_ascii (partition_name p)"
    and "is_ascii (course_id c)"
  shows "create_content_gating_partition env c =
           Inr (None, [Logged WARNING (collision_warning_text (partition_name p) (course_id c))])"
proof -
  from get_partition_from_id_Some [OF assms(3)]
  have "51 \<in> partition_id ` set (user_partitions c)"
    by auto
  with assms show ?thesis
    by (auto simp: create_content_gating_partition_def CONTENT_GATING_PARTITION_ID_def
        collision_warning_def Let_def)
qed

lemma reserved_id_collision_ascii_example:
  "create_content_gating_partition demo_env colliding_course =
     Inr (None, [Logged WARNING (collision_warning_text ''Imported'' demo_course)])"
proof -
  have "create_content_gating_partition demo_env colliding_course =
          Inr (None, [Logged WARNING
            (collision_warning_text
               (partition_name (user_partitions colliding_course ! 1))
               (course_id colliding_course))])"
    by (rule reserved_id_collision_ascii [where sch = ContentTypeGatingPartitionScheme])
       (simp_all add: demo_env_def colliding_course_def demo_course_def is_ascii_def)
  then show ?thesis
    by (simp add: colliding_course_def)
qed

text \<open>
  C8. When one of the two gating flags is enabled, the scheme is registered and a partition
  of the course already has the reserved id 51, \<^verbatim>\<open>create_content_gating_partition\<close> is
  to return \<^verbatim>\<open>None\<close> and log exactly one warning. It does when the name of that
  partition and the course key are ASCII (\<open>reserved_id_collision_ascii\<close>). When one of
  them is not, formatting the warning raises \<^verbatim>\<open>UnicodeEncodeError\<close>: nothing is logged
  and nothing is returned.
\<close>

theorem reserved_id_collision_non_ascii:
  assumes "content_type_gating_flag env \<or> content_type_gating_studio_ui_flag env"
    and "get_scheme env ''content_type_gate'' = Some sch"
    and "get_partition_from_id (user_partitions c) 51 = Some p"
    and "\<not> (is_ascii (partition_name p) \<and> is_ascii (course_id c))"
  shows "create_content_gating_partition env c = Inl UnicodeEncodeError"
proof -
  from get_partition_from_id_Some [OF assms(3)]
  have "51 \<in> partition_id ` set (user_partitions c)"
    by auto
  with assms show ?thesis
    by (auto simp: create_content_gating_partition_def CONTENT_GATING_PARTITION_ID_def
        collision_warning_def Let_def)
qed

theorem reserved_id_collision_non_ascii_witness:
  "51 \<in> partition_id ` set (user_partitions accented_course)
   \<and> create_content_gating_partition demo_env accented_course = Inl UnicodeEncodeError"
proof
  show "51 \<in> partition_id ` set (user_partitions accented_course)"
    by (simp add: accented_course_def)
  show "create_content_gating_partition demo_env accented_course = Inl UnicodeEncodeError"
    by (rule reserved_id_collision_non_ascii
          [where sch = ContentTypeGatingPartitionScheme
             and p = "user_partitions accented_course ! 1"])
       (simp_all add: demo_env_def accented_course_def is_ascii_def)
qed

text \<open>
  C9. Whatever \<^verbatim>\<open>active\<close> and \<^verbatim>\<open>groups\<close> the caller passes, the partition that
  \<^verbatim>\<open>create_user_partition\<close> builds is active and its groups are the two fixed groups,
  Limited-access (id 1) first and Full-access (id 2) second.
\<close>

theorem create_user_partition_fixed:
  "partition_active (create_user_partition i n d groups params active) = True
   \<and> partition_groups (create_user_partition i n d groups params active)
       = [LIMITED_ACCESS, FULL_ACCESS]
   \<and> map group_id (partition_groups (create_user_partition i n d groups params active)) = [1, 2]"
  by (simp add: create_user_partition_def LIMITED_ACCESS_def FULL_ACCESS_def)

subsection \<open>Access denied fragment\<close>



subsection \<open>Course duration limits\<close>

text \<open>
  C3. With the content type gating flag disabled, a call of \<^verbatim>\<open>enabled_for_enrollment\<close>
  that gives the enrollment together with a user or a course key, or gives no enrollment
  and not both a user and a course key, raises \<^verbatim>\<open>ValueError\<close>. With the flag enabled the
  method returns \<^verbatim>\<open>True\<close> before it looks at its arguments, as the example after the
  theorem shows.
\<close>

theorem enabled_for_enrollment_invalid_arguments:
  assumes "\<not> content_type_gating_flag env"
    and "(enr \<noteq> None \<and> (usr \<noteq> None \<or> ck \<noteq> None)) \<or> (enr = None \<and> (usr = None \<or> ck = None))"
  shows "\<exists>msg. enabled_for_enrollment env enr usr ck = Inl (ValueError msg)"
  using assms by (auto simp: enabled_for_enrollment_def)

theorem enabled_for_enrollment_invalid_arguments_witness:
  "(\<exists>msg. enabled_for_enrollment flag_off_env (Some demo_enrollment) (Some learner) None
            = Inl (ValueError msg))
   \<and> (\<exists>msg. enabled_for_enrollment flag_off_env None (Some learner) None
            = Inl (ValueError msg))"
proof
  show "\<exists>msg. enabled_for_enrollment flag_off_env (Some demo_enrollment) (Some learner) None
            = Inl (ValueError msg)"
    by (rule enabled_for_enrollment_invalid_arguments) (simp_all add: flag_off_env_def demo_env_def)
  show "\<exists>msg. enabled_for_enrollment flag_off_env None (Some learner) None
            = Inl (ValueError msg)"
    by (rule enabled_for_enrollment_invalid_arguments) (simp_all add: flag_off_env_def demo_env_def)
qed

text \<open>
  With the flag enabled, a call with both an enrollment and a user, and a call with no
  argument at all, return \<^verbatim>\<open>True\<close>.
\<close>

theorem enabled_for_enrollment_flag_counterexample:
  "content_type_gating_flag demo_env
   \<and> enabled_for_enrollment demo_env (Some demo_enrollment) (Some learner) None = Inr True
   \<and> enabled_for_enrollment demo_env None None None = Inr True"
  by (simp add: enabled_for_enrollment_def demo_env_def)

text \<open>
  C6. \<^verbatim>\<open>enabled_for_course\<close> returns \<^verbatim>\<open>True\<close> if the content type gating flag is enabled.
  Otherwise, with the target date defaulting to the current UTC date and a resolved
  configuration whose \<^verbatim>\<open>enabled_as_of\<close> is a date, it returns the boolean
  \<^verbatim>\<open>enabled and enabled_as_of <= target_date\<close>, an unset \<^verbatim>\<open>enabled\<close> counting as false; an
  unset or false \<^verbatim>\<open>enabled\<close> gives \<^verbatim>\<open>False\<close> also when \<^verbatim>\<open>enabled_as_of\<close> is \<^verbatim>\<open>None\<close>. The
  value returned is always a boolean, never \<^verbatim>\<open>None\<close>. In the one remaining case,
  \<^verbatim>\<open>enabled\<close> true with \<^verbatim>\<open>enabled_as_of\<close> \<^verbatim>\<open>None\<close>, the comparison has no value and the
  call raises \<^verbatim>\<open>TypeError\<close>, as the example after the theorem shows.
\<close>

theorem enabled_for_course_value:
  "enabled_for_course env ck target_date =
     (if content_type_gating_flag env then Inr True
      else
        case enabled_as_of (current env ck) of
          Some d \<Rightarrow>
            Inr (enabled (current env ck) = Some True
                 \<and> d \<le> (case target_date of None \<Rightarrow> date_part (utcnow env) | Some t \<Rightarrow> t))
        | None \<Rightarrow>
            if enabled (current env ck) = Some True then Inl TypeError else Inr False)"
  by (simp add: enabled_for_course_def enabled_as_of_date_def enabled_and_as_of_def date_le_def
      py_bool_def Let_def split: option.splits bool.splits)

theorem enabled_for_course_value_witness:
  "enabled_for_course demo_env demo_course (Some 737425) = Inr True
   \<and> enabled_for_course flag_off_env demo_course (Some 737425) = Inr False
   \<and> enabled_for_course flag_off_env demo_course None = Inr True"
  using enabled_for_course_value [of demo_env demo_course "Some 737425"]
    enabled_for_course_value [of flag_off_env demo_course "Some 737425"]
    enabled_for_course_value [of flag_off_env demo_course None]
  by (simp add: flag_off_env_def demo_env_def)

text \<open>
  With the flag disabled and a stored configuration with \<^verbatim>\<open>enabled\<close> true and
  \<^verbatim>\<open>enabled_as_of\<close> \<^verbatim>\<open>None\<close>, \<^verbatim>\<open>enabled_for_course\<close> returns no boolean.
\<close>

theorem enabled_for_course_null_counterexample:
  "\<not> content_type_gating_flag unvalidated_env
   \<and> current unvalidated_env demo_course = \<lparr>enabled = Some True, enabled_as_of = None\<rparr>
   \<and> enabled_for_course unvalidated_env demo_course (Some 737800) = Inl TypeError
   \<and> enabled_for_course unvalidated_env demo_course None = Inl TypeError"
  by (simp add: enabled_for_course_def enabled_as_of_date_def enabled_and_as_of_def date_le_def
      unvalidated_env_def unvalidated_config_def flag_off_env_def demo_env_def)

text \<open>
  C10. If the configuration has \<^verbatim>\<open>enabled\<close> true and \<^verbatim>\<open>enabled_as_of\<close> \<^verbatim>\<open>None\<close>, then for
  every target date \<^verbatim>\<open>enabled_as_of_date\<close> returns \<^verbatim>\<open>True\<close> when the content type gating
  flag is enabled, and otherwise raises \<^verbatim>\<open>TypeError\<close>, from the comparison of \<^verbatim>\<open>None\<close>
  with the target date. It never returns \<^verbatim>\<open>False\<close>.
\<close>

theorem enabled_as_of_date_null:
  assumes "enabled self = Some True" and "enabled_as_of self = None"
  shows "enabled_as_of_date env self target_date =
           (if content_type_gating_flag env then Inr True else Inl TypeError)
         \<and> enabled_as_of_date env self target_date \<noteq> Inr False"
  using assms by (simp add: enabled_as_of_date_def enabled_and_as_of_def date_le_def)

theorem enabled_as_of_date_null_witness:
  "enabled_as_of_date demo_env unvalidated_config 737800 = Inr True
   \<and> enabled_as_of_date unvalidated_env unvalidated_config 737800 = Inl TypeError"
proof -
  have c: "enabled unvalidated_config = Some True" "enabled_as_of unvalidated_config = None"
    by (simp_all add: unvalidated_config_def)
  from enabled_as_of_date_null [OF c, of demo_env 737800]
    enabled_as_of_date_null [OF c, of unvalidated_env 737800]
  show ?thesis
    by (simp add: demo_env_def unvalidated_env_def flag_off_env_def)
qed

text \<open>
  With the flag disabled, the stored configuration with \<^verbatim>\<open>enabled\<close> true and
  \<^verbatim>\<open>enabled_as_of\<close> \<^verbatim>\<open>None\<close> does not give \<^verbatim>\<open>True\<close> on 2021-01-10: the call raises.
\<close>

theorem enabled_as_of_date_null_counterexample:
  "enabled unvalidated_config = Some True
   \<and> enabled_as_of unvalidated_config = None
   \<and> enabled_as_of_date unvalidated_env unvalidated_config 737800 = Inl TypeError
   \<and> enabled_as_of_date unvalidated_env unvalidated_config 737800 \<noteq> Inr True"
  by (simp add: enabled_as_of_date_def enabled_and_as_of_def date_le_def unvalidated_env_def
      unvalidated_config_def flag_off_env_def demo_env_def)

end
